theory Spec2Isabelle
  imports Main
begin

section \<open>Python values\<close>

text \<open>
  The values the robot handles are strings, the parsed JSON bodies of ServiceNow's
  responses, and the dictionaries it sends. A Python \<open>str\<close> is a \<open>string\<close>: one
  \<open>char\<close> per character, so the model covers the code points below 256. JSON
  numbers are integers here; a \<open>dict\<close> is an association list in insertion order
  whose keys are strings and are not repeated.
\<close>

datatype pyval =
    PNone
  | PBool bool
  | PInt int
  | PStr string
  | PList "pyval list"
  | PDict "(string \<times> pyval) list"

text \<open>
  An exception object, an instance of a subclass of \<open>Exception\<close> (what \<open>requests\<close>,
  the JSON decoder and a failed attribute or index access raise): its class name and
  what \<open>str(e)\<close> gives.
\<close>

datatype exc = Exc (exc_type: string) (exc_str: string)

subsection \<open>Decimal and hexadecimal digits\<close>

definition digit_char :: "nat \<Rightarrow> char" where
  "digit_char d = char_of (48 + d)"

definition hex_char :: "nat \<Rightarrow> char" where
  "hex_char d = (if d < 10 then char_of (48 + d) else char_of (87 + d))"

definition hex2 :: "char \<Rightarrow> string" where
  "hex2 c = [hex_char ((of_char c :: nat) div 16), hex_char ((of_char c :: nat) mod 16)]"

function show_nat :: "nat \<Rightarrow> string" where
  "show_nat n = (if n < 10 then [digit_char n] else show_nat (n div 10) @ [digit_char (n mod 10)])"
  by pat_completeness auto
termination
  by (relation "measure id") auto

declare show_nat.simps [simp del]

text \<open>\<open>str(i)\<close> of a Python \<open>int\<close>.\<close>

definition show_int :: "int \<Rightarrow> string" where
  "show_int i = (if i < 0 then CHR ''-'' # show_nat (nat (- i)) else show_nat (nat i))"

subsection \<open>Truth value, \<open>repr\<close> and \<open>str\<close>\<close>

text \<open>Python's truth value of an object, as \<open>if x:\<close> tests it.\<close>

fun truthy :: "pyval \<Rightarrow> bool" where
  "truthy PNone = False"
| "truthy (PBool b) = b"
| "truthy (PInt i) = (i \<noteq> 0)"
| "truthy (PStr s) = (s \<noteq> [])"
| "truthy (PList xs) = (xs \<noteq> [])"
| "truthy (PDict kvs) = (kvs \<noteq> [])"

text \<open>
  \<open>repr\<close> of a string: single quotes, unless the string holds a single quote and no
  double quote; the quote and the backslash are escaped, tab, newline and carriage
  return are written \<open>\t\<close>, \<open>\n\<close>, \<open>\r\<close>, and every other character that is not
  printable is written \<open>\xhh\<close>.
\<close>

definition printable :: "char \<Rightarrow> bool" where
  "printable c = (let n = (of_char c :: nat) in
     32 \<le> n \<and> n \<noteq> 127 \<and> \<not> (128 \<le> n \<and> n \<le> 160) \<and> n \<noteq> 173)"

definition repr_quote :: "string \<Rightarrow> char" where
  "repr_quote s = (if CHR 0x27 \<in> set s \<and> CHR 0x22 \<notin> set s then CHR 0x22 else CHR 0x27)"

definition repr_char :: "char \<Rightarrow> char \<Rightarrow> string" where
  "repr_char q c =
     (if c = q \<or> c = CHR 0x5C then [CHR 0x5C, c]
      else if c = CHR 0x09 then [CHR 0x5C, CHR ''t'']
      else if c = CHR 0x0A then [CHR 0x5C, CHR ''n'']
      else if c = CHR 0x0D then [CHR 0x5C, CHR ''r'']
      else if \<not> printable c then [CHR 0x5C, CHR ''x''] @ hex2 c
      else [c])"

definition repr_str :: "string \<Rightarrow> string" where
  "repr_str s = (let q = repr_quote s in [q] @ concat (map (repr_char q) s) @ [q])"

fun py_repr :: "pyval \<Rightarrow> string"
  and py_repr_list :: "pyval list \<Rightarrow> string"
  and py_repr_items :: "(string \<times> pyval) list \<Rightarrow> string" where
  "py_repr PNone = ''None''"
| "py_repr (PBool b) = (if b then ''True'' else ''False'')"
| "py_repr (PInt i) = show_int i"
| "py_repr (PStr s) = repr_str s"
| "py_repr (PList xs) = ''['' @ py_repr_list xs @ '']''"
| "py_repr (PDict kvs) = ''{'' @ py_repr_items kvs @ ''}''"
| "py_repr_list [] = []"
| "py_repr_list [x] = py_repr x"
| "py_repr_list (x # y # ys) = py_repr x @ '', '' @ py_repr_list (y # ys)"
| "py_repr_items [] = []"
| "py_repr_items [(k, v)] = repr_str k @ '': '' @ py_repr v"
| "py_repr_items ((k, v) # kv # kvs) =
     repr_str k @ '': '' @ py_repr v @ '', '' @ py_repr_items (kv # kvs)"

text \<open>\<open>str(x)\<close>, which is also what an f-string and \<open>print\<close> write for \<open>x\<close>.\<close>

fun py_str :: "pyval \<Rightarrow> string" where
  "py_str (PStr s) = s"
| "py_str v = py_repr v"

subsection \<open>\<open>json.dumps(x, ensure_ascii=False)\<close>\<close>

text \<open>
  The default separators are \<open>, \<close> and \<open>: \<close>. With \<open>ensure_ascii=False\<close> only the
  double quote, the backslash and the control characters below 32 are escaped.
\<close>

definition json_escape_char :: "char \<Rightarrow> string" where
  "json_escape_char c =
     (if c = CHR 0x22 then [CHR 0x5C, CHR 0x22]
      else if c = CHR 0x5C then [CHR 0x5C, CHR 0x5C]
      else if c = CHR 0x0A then [CHR 0x5C, CHR ''n'']
      else if c = CHR 0x0D then [CHR 0x5C, CHR ''r'']
      else if c = CHR 0x09 then [CHR 0x5C, CHR ''t'']
      else if c = CHR 0x08 then [CHR 0x5C, CHR ''b'']
      else if c = CHR 0x0C then [CHR 0x5C, CHR ''f'']
      else if (of_char c :: nat) < 32 then [CHR 0x5C, CHR ''u'', CHR ''0'', CHR ''0''] @ hex2 c
      else [c])"

definition json_string :: "string \<Rightarrow> string" where
  "json_string s = [CHR 0x22] @ concat (map json_escape_char s) @ [CHR 0x22]"

fun json_dumps :: "pyval \<Rightarrow> string"
  and json_dumps_list :: "pyval list \<Rightarrow> string"
  and json_dumps_items :: "(string \<times> pyval) list \<Rightarrow> string" where
  "json_dumps PNone = ''null''"
| "json_dumps (PBool b) = (if b then ''true'' else ''false'')"
| "json_dumps (PInt i) = show_int i"
| "json_dumps (PStr s) = json_string s"
| "json_dumps (PList xs) = ''['' @ json_dumps_list xs @ '']''"
| "json_dumps (PDict kvs) = ''{'' @ json_dumps_items kvs @ ''}''"
| "json_dumps_list [] = []"
| "json_dumps_list [x] = json_dumps x"
| "json_dumps_list (x # y # ys) = json_dumps x @ '', '' @ json_dumps_list (y # ys)"
| "json_dumps_items [] = []"
| "json_dumps_items [(k, v)] = json_string k @ '': '' @ json_dumps v"
| "json_dumps_items ((k, v) # kv # kvs) =
     json_string k @ '': '' @ json_dumps v @ '', '' @ json_dumps_items (kv # kvs)"

subsection \<open>Dictionary and index access\<close>

text \<open>\<open>d.get(key, default)\<close> on a dictionary.\<close>

definition dict_get :: "(string \<times> pyval) list \<Rightarrow> string \<Rightarrow> pyval \<Rightarrow> pyval" where
  "dict_get kvs k d = (case map_of kvs k of Some v \<Rightarrow> v | None \<Rightarrow> d)"

fun type_name :: "pyval \<Rightarrow> string" where
  "type_name PNone = ''NoneType''"
| "type_name (PBool b) = ''bool''"
| "type_name (PInt i) = ''int''"
| "type_name (PStr s) = ''str''"
| "type_name (PList xs) = ''list''"
| "type_name (PDict kvs) = ''dict''"

text \<open>
  \<open>x.get(key, default)\<close> on any object: only a dictionary has the method, every other
  value raises \<open>AttributeError\<close>.
\<close>

fun py_get :: "pyval \<Rightarrow> string \<Rightarrow> pyval \<Rightarrow> exc + pyval" where
  "py_get (PDict kvs) k d = Inr (dict_get kvs k d)"
| "py_get v k d = Inl (Exc ''AttributeError''
     ([CHR 0x27] @ type_name v @ [CHR 0x27] @ '' object has no attribute '' @ [CHR 0x27] @ ''get'' @ [CHR 0x27]))"

text \<open>
  \<open>x[0]\<close>: the first element of a list, the first character of a string, the value
  under the key \<open>0\<close> of a dictionary (a parsed JSON object has string keys only, so
  \<open>KeyError\<close>), \<open>TypeError\<close> on the rest.
\<close>

fun py_index0 :: "pyval \<Rightarrow> exc + pyval" where
  "py_index0 (PList (x # xs)) = Inr x"
| "py_index0 (PList []) = Inl (Exc ''IndexError'' ''list index out of range'')"
| "py_index0 (PStr (c # cs)) = Inr (PStr [c])"
| "py_index0 (PStr []) = Inl (Exc ''IndexError'' ''string index out of range'')"
| "py_index0 (PDict kvs) = Inl (Exc ''KeyError'' ''0'')"
| "py_index0 v = Inl (Exc ''TypeError''
     ([CHR 0x27] @ type_name v @ [CHR 0x27] @ '' object is not subscriptable''))"

section \<open>The robot's surroundings\<close>

text \<open>
  The robot runs inside the orchestration framework and talks to ServiceNow through
  \<open>requests\<close>. The framework is the robot's host: its constants, credentials, log,
  queue and e-mail are taken to be available whenever the robot runs, so a call to
  the connection (and \<open>send_error_screenshot\<close>, and \<open>print\<close>) returns and is
  recorded. The ticketing side is not under the host's control: a request may raise
  instead of answering, the body of a response may not be JSON, and the JSON may have
  any shape.
\<close>

text \<open>
  \<open>robot_framework.config\<close>: the constants the two modules read. The retry count is
  \<open>None\<close>, a string or an integer; \<open>==\<close> on these is equality of the values, and a
  string never equals an integer.
\<close>

datatype count = CNone | CStr string | CInt int

record config =
  ERROR_EMAIL :: string
  SERVICE_NOW_API_PROD_USER :: string
  MAX_RETRY_COUNT :: count

record OrchestratorConnection =
  process_name :: string
  constants :: "string \<Rightarrow> string"
  credentials :: "string \<Rightarrow> string \<times> string"

datatype QueueStatus = NEW | IN_PROGRESS | DONE | FAILED | ABANDONED

text \<open>
  The \<open>error\<close> argument of \<open>handle_error\<close>: an exception instance, or the class
  object \<open>BusinessError\<close> itself, the one object that \<open>error != BusinessError\<close>
  tells apart.
\<close>

datatype error_obj = Instance exc | BusinessErrorClass

fun error_str :: "error_obj \<Rightarrow> string" where
  "error_str (Instance e) = exc_str e"
| "error_str BusinessErrorClass =
     ''<class '' @ [CHR 0x27] @ ''robot_framework.exceptions.BusinessError'' @ [CHR 0x27] @ ''>''"

text \<open>An instance of \<open>BusinessError\<close>: a business-rule violation.\<close>

fun is_business_error :: "error_obj \<Rightarrow> bool" where
  "is_business_error (Instance e) = (exc_type e = ''BusinessError'')"
| "is_business_error BusinessErrorClass = False"

type_synonym headers = "(string \<times> string) list"
type_synonym auth = "string \<times> string"

record response =
  status_code :: int
  resp_text :: string
  resp_json :: "exc + pyval"

text \<open>
  \<open>requests\<close>: what each request gives, a response or an exception, as a function of
  what is sent.
\<close>

record requests =
  requests_get :: "string \<Rightarrow> headers \<Rightarrow> auth \<Rightarrow> exc + response"
  requests_put :: "string \<Rightarrow> headers \<Rightarrow> auth \<Rightarrow> pyval \<Rightarrow> exc + response"
  requests_post :: "string \<Rightarrow> headers \<Rightarrow> auth \<Rightarrow> pyval \<Rightarrow> exc + response"

text \<open>What a run does to the outside, in order.\<close>

datatype event =
    Print string
  | LogTrace string
  | LogError string
  | SetQueueElementStatus string QueueStatus string
  | SendErrorScreenshot string error_obj string
  | HttpGet string headers auth
  | HttpPut string headers auth pyval
  | HttpPost string headers auth pyval

text \<open>
  A computation gives the events it caused and either the exception it raised or the
  value it returned.
\<close>

type_synonym 'a io = "event list \<times> (exc + 'a)"

definition ret :: "'a \<Rightarrow> 'a io" where
  "ret x = ([], Inr x)"

definition lift :: "exc + 'a \<Rightarrow> 'a io" where
  "lift r = ([], r)"

definition emit :: "event \<Rightarrow> unit io" where
  "emit ev = ([ev], Inr ())"

definition bind :: "'a io \<Rightarrow> ('a \<Rightarrow> 'b io) \<Rightarrow> 'b io" where
  "bind m f =
     (case m of
        (t, Inl e) \<Rightarrow> (t, Inl e)
      | (t, Inr x) \<Rightarrow> (case f x of (t', r) \<Rightarrow> (t @ t', r)))"

text \<open>\<open>try: m except Exception as e: h e\<close>.\<close>

definition try_except :: "'a io \<Rightarrow> (exc \<Rightarrow> 'a io) \<Rightarrow> 'a io" where
  "try_except m h =
     (case m of
        (t, Inl e) \<Rightarrow> (case h e of (t', r) \<Rightarrow> (t @ t', r))
      | (t, Inr x) \<Rightarrow> (t, Inr x))"

definition http_get :: "requests \<Rightarrow> string \<Rightarrow> headers \<Rightarrow> auth \<Rightarrow> response io" where
  "http_get rq url hs a = ([HttpGet url hs a], requests_get rq url hs a)"

definition http_put :: "requests \<Rightarrow> string \<Rightarrow> headers \<Rightarrow> auth \<Rightarrow> pyval \<Rightarrow> response io" where
  "http_put rq url hs a body = ([HttpPut url hs a body], requests_put rq url hs a body)"

definition http_post :: "requests \<Rightarrow> string \<Rightarrow> headers \<Rightarrow> auth \<Rightarrow> pyval \<Rightarrow> response io" where
  "http_post rq url hs a body = ([HttpPost url hs a body], requests_post rq url hs a body)"

section \<open>servicenow_handler.py\<close>

definition PROD_INSTANCE :: string where
  "PROD_INSTANCE = ''aarhuskommune''"

definition TEST_INSTANCE :: string where
  "TEST_INSTANCE = ''aarhuskommunedev''"

definition json_headers :: headers where
  "json_headers = [(''Content-Type'', ''application/json''), (''Accept'', ''application/json'')]"

text \<open>The basic-auth pair: the user name of one credential lookup, the password of a second.\<close>

definition service_now_auth :: "config \<Rightarrow> OrchestratorConnection \<Rightarrow> auth" where
  "service_now_auth cfg oc =
     (fst (credentials oc (SERVICE_NOW_API_PROD_USER cfg)),
      snd (credentials oc (SERVICE_NOW_API_PROD_USER cfg)))"

definition query :: "OrchestratorConnection \<Rightarrow> string" where
  "query oc = ''short_descriptionLIKE'' @ process_name oc
     @ ''^active=true^state!=6^ORDERBYDESCsys_created_on''"

definition get_url :: "OrchestratorConnection \<Rightarrow> string" where
  "get_url oc = ''https://'' @ TEST_INSTANCE
     @ ''.service-now.com/api/now/table/incident?sysparm_limit=50&sysparm_query='' @ query oc"

text \<open>\<open>f"Error {response.status_code}: {response.text}"\<close>.\<close>

definition error_line :: "response \<Rightarrow> string" where
  "error_line response =
     ''Error '' @ show_int (status_code response) @ '': '' @ resp_text response"

text \<open>\<open>results[0].get("sys_id")\<close>.\<close>

definition first_sys_id :: "pyval \<Rightarrow> pyval io" where
  "first_sys_id results =
     bind (lift (py_index0 results)) (\<lambda>first. lift (py_get first ''sys_id'' PNone))"

definition get_incident :: "config \<Rightarrow> requests \<Rightarrow> OrchestratorConnection \<Rightarrow> pyval io" where
  "get_incident cfg rq oc =
     bind (http_get rq (get_url oc) json_headers (service_now_auth cfg oc)) (\<lambda>response.
       if status_code response = 200 then
         bind (lift (resp_json response)) (\<lambda>body.
         bind (lift (py_get body ''result'' (PList []))) (\<lambda>results.
           if truthy results then
             bind (first_sys_id results) (\<lambda>printed.
             bind (emit (Print (py_str printed))) (\<lambda>_.
             first_sys_id results))
           else ret PNone))
       else
         bind (emit (Print (error_line response))) (\<lambda>_.
         ret PNone))"

definition comment_text :: "OrchestratorConnection \<Rightarrow> (string \<times> pyval) list \<Rightarrow> string" where
  "comment_text oc error_dict =
     ''The process '' @ [CHR 0x27] @ process_name oc @ [CHR 0x27]
       @ '' has encountered another ApplicationException!\<newline>\<newline>''
     @ ''Exception message:\<newline>'' @ py_str (dict_get error_dict ''message'' (PStr []))
       @ ''\<newline>\<newline>''
     @ ''Full Exception trace:\<newline>'' @ py_str (dict_get error_dict ''trace'' (PStr []))
       @ ''\<newline>\<newline>''
     @ ''Please investigate the source of this error, as this comment is attached to an existing incident with the same process name.''"

definition put_url :: "pyval \<Rightarrow> string" where
  "put_url existing_incident_sys_id = ''https://'' @ TEST_INSTANCE
     @ ''.service-now.com/api/now/table/incident/'' @ py_str existing_incident_sys_id"

definition update_incident ::
  "config \<Rightarrow> requests \<Rightarrow> OrchestratorConnection \<Rightarrow> (string \<times> pyval) list \<Rightarrow> pyval \<Rightarrow> pyval io" where
  "update_incident cfg rq oc error_dict existing_incident_sys_id =
     bind (emit (Print [])) (\<lambda>_.
     bind (emit (Print (comment_text oc error_dict))) (\<lambda>_.
     bind (http_put rq (put_url existing_incident_sys_id) json_headers (service_now_auth cfg oc)
             (PDict [(''comments'', PStr (comment_text oc error_dict))])) (\<lambda>response.
       if status_code response = 200 then
         bind (lift (resp_json response)) (\<lambda>body. lift (py_get body ''result'' (PDict [])))
       else
         bind (emit (Print (error_line response))) (\<lambda>_.
         ret PNone))))"

definition post_url :: string where
  "post_url = ''https://'' @ TEST_INSTANCE @ ''.service-now.com/api/now/table/incident''"

definition incident_data :: "OrchestratorConnection \<Rightarrow> (string \<times> pyval) list \<Rightarrow> pyval" where
  "incident_data oc error_dict = PDict
     [(''contact_type'', PStr ''integration''),
      (''short_description'', PStr (''ApplicationException caught in process '' @ [CHR 0x27]
         @ process_name oc @ [CHR 0x27])),
      (''description'', PStr (''Error message:\<newline>''
         @ py_str (dict_get error_dict ''message'' (PStr []))
         @ ''\<newline>\<newline>Full error trace message:\<newline>''
         @ py_str (dict_get error_dict ''trace'' (PStr [])))),
      (''business_service'', PStr []),
      (''service_offering'', PStr []),
      (''assignment_group'', PStr ''b54156a91ba5115068ba5398624bcb0e''),
      (''assigned_to'', PStr []),
      (''category'', PStr ''Fejl'')]"

definition post_incident ::
  "config \<Rightarrow> requests \<Rightarrow> OrchestratorConnection \<Rightarrow> (string \<times> pyval) list \<Rightarrow> pyval io" where
  "post_incident cfg rq oc error_dict =
     bind (emit (Print ''inside post_incident() function ...'')) (\<lambda>_.
     bind (http_post rq post_url json_headers (service_now_auth cfg oc)
             (incident_data oc error_dict)) (\<lambda>response.
     bind (emit (Print [])) (\<lambda>_.
     bind (emit (Print (''Response Status Code: '' @ show_int (status_code response)))) (\<lambda>_.
     bind (emit (Print (''Response Text: '' @ resp_text response))) (\<lambda>_.
       if status_code response = 200 then
         bind (lift (resp_json response)) (\<lambda>body. lift (py_get body ''result'' (PDict [])))
       else
         bind (emit (Print (error_line response))) (\<lambda>_.
         ret PNone))))))"

definition handle_incident ::
  "config \<Rightarrow> requests \<Rightarrow> OrchestratorConnection \<Rightarrow> (string \<times> pyval) list \<Rightarrow> unit io" where
  "handle_incident cfg rq oc error_dict =
     bind (get_incident cfg rq oc) (\<lambda>existing_incident_sys_id.
       if truthy existing_incident_sys_id then
         bind (update_incident cfg rq oc error_dict existing_incident_sys_id) (\<lambda>_. ret ())
       else
         bind (post_incident cfg rq oc error_dict) (\<lambda>_. ret ()))"

section \<open>exceptions.py\<close>

fun count_val :: "count \<Rightarrow> pyval" where
  "count_val CNone = PNone"
| "count_val (CStr s) = PStr s"
| "count_val (CInt i) = PInt i"

text \<open>\<open>tb\<close> is what \<open>traceback.format_exc()\<close> returns when the error is handled.\<close>

definition error_dict_of :: "string \<Rightarrow> count \<Rightarrow> error_obj \<Rightarrow> string \<Rightarrow> (string \<times> pyval) list" where
  "error_dict_of message error_count error tb =
     [(''type'', PStr message),
      (''error_count'', count_val error_count),
      (''message'', PStr (error_str error)),
      (''trace'', PStr tb)]"

text \<open>\<open>error_msg[:500]\<close>, the marker, \<open>error_msg[-490:]\<close> when longer than 1000.\<close>

definition shorten :: "string \<Rightarrow> string" where
  "shorten error_msg =
     (if length error_msg > 1000
      then take 500 error_msg @ ''  [...] '' @ drop (length error_msg - 490) error_msg
      else error_msg)"

definition error_msg_of :: "string \<Rightarrow> count \<Rightarrow> error_obj \<Rightarrow> string \<Rightarrow> string" where
  "error_msg_of message error_count error tb =
     shorten (json_dumps (PDict (error_dict_of message error_count error tb)))"

text \<open>The body of the \<open>try\<close>.\<close>

definition escalate ::
  "config \<Rightarrow> requests \<Rightarrow> OrchestratorConnection \<Rightarrow> (string \<times> pyval) list \<Rightarrow> unit io" where
  "escalate cfg rq oc error_dict =
     bind (emit (LogTrace ''ApplicationException caught. Handling ServiceNow incident.'')) (\<lambda>_.
     bind (handle_incident cfg rq oc error_dict) (\<lambda>_.
     emit (LogTrace ''ServiceNow incident handled.'')))"

definition handle_error ::
  "config \<Rightarrow> requests \<Rightarrow> string \<Rightarrow> string \<Rightarrow> count \<Rightarrow> error_obj \<Rightarrow> string option
     \<Rightarrow> OrchestratorConnection \<Rightarrow> unit io" where
  "handle_error cfg rq tb message error_count error queue_element oc =
     (let error_dict = error_dict_of message error_count error tb;
          error_msg = error_msg_of message error_count error tb;
          error_email = constants oc (ERROR_EMAIL cfg)
      in
      bind (emit (LogError error_msg)) (\<lambda>_.
      bind (case queue_element of
              Some qid \<Rightarrow> emit (SetQueueElementStatus qid FAILED error_msg)
            | None \<Rightarrow> ret ()) (\<lambda>_.
      bind (if error \<noteq> BusinessErrorClass
            then emit (SendErrorScreenshot error_email error (process_name oc))
            else ret ()) (\<lambda>_.
        if message = ''ApplicationException'' \<and> error_count = MAX_RETRY_COUNT cfg then
          try_except (escalate cfg rq oc error_dict) (\<lambda>e.
            bind (emit (Print (''Failed to create ServiceNow incident: '' @ exc_str e))) (\<lambda>_.
            emit (LogError (''Failed to create ServiceNow incident. error_msg: '' @ error_msg))))
        else ret ()))))"

section \<open>Observing a run\<close>

definition is_get :: "event \<Rightarrow> bool" where
  "is_get ev = (case ev of HttpGet u h a \<Rightarrow> True | _ \<Rightarrow> False)"

definition is_put :: "event \<Rightarrow> bool" where
  "is_put ev = (case ev of HttpPut u h a b \<Rightarrow> True | _ \<Rightarrow> False)"

definition is_post :: "event \<Rightarrow> bool" where
  "is_post ev = (case ev of HttpPost u h a b \<Rightarrow> True | _ \<Rightarrow> False)"

definition is_request :: "event \<Rightarrow> bool" where
  "is_request ev = (is_get ev \<or> is_put ev \<or> is_post ev)"

text \<open>The requests of a run, in order: its traffic with the ticketing system.\<close>

definition requests_of :: "event list \<Rightarrow> event list" where
  "requests_of t = filter is_request t"

text \<open>The three requests the handler can send.\<close>

definition lookup_event :: "config \<Rightarrow> OrchestratorConnection \<Rightarrow> event" where
  "lookup_event cfg oc = HttpGet (get_url oc) json_headers (service_now_auth cfg oc)"

definition update_event ::
  "config \<Rightarrow> OrchestratorConnection \<Rightarrow> (string \<times> pyval) list \<Rightarrow> pyval \<Rightarrow> event" where
  "update_event cfg oc error_dict sys_id =
     HttpPut (put_url sys_id) json_headers (service_now_auth cfg oc)
       (PDict [(''comments'', PStr (comment_text oc error_dict))])"

definition create_event ::
  "config \<Rightarrow> OrchestratorConnection \<Rightarrow> (string \<times> pyval) list \<Rightarrow> event" where
  "create_event cfg oc error_dict =
     HttpPost post_url json_headers (service_now_auth cfg oc) (incident_data oc error_dict)"

fun request_url :: "event \<Rightarrow> string option" where
  "request_url (HttpGet u h a) = Some u"
| "request_url (HttpPut u h a b) = Some u"
| "request_url (HttpPost u h a b) = Some u"
| "request_url ev = None"

text \<open>The URLs a run sends requests to, in order.\<close>

definition urls_of :: "event list \<Rightarrow> string list" where
  "urls_of t = List.map_filter request_url t"

subsection \<open>Reading a URL\<close>

text \<open>
  How the receiving side reads an \<open>https\<close> URL: the authority runs from the scheme
  to the first of \<open>/\<close>, \<open>?\<close>, \<open>#\<close>; the query runs from the first \<open>?\<close> to \<open>#\<close> and is
  a list of \<open>key=value\<close> pairs separated by \<open>&\<close>, each side decoded as a form field.
\<close>

definition url_authority :: "string \<Rightarrow> string option" where
  "url_authority u =
     (if take 8 u = ''https://''
      then Some (takeWhile (\<lambda>c. c \<noteq> CHR ''/'' \<and> c \<noteq> CHR ''?'' \<and> c \<noteq> CHR ''#'') (drop 8 u))
      else None)"

definition url_query :: "string \<Rightarrow> string" where
  "url_query u = takeWhile (\<lambda>c. c \<noteq> CHR ''#'') (drop 1 (dropWhile (\<lambda>c. c \<noteq> CHR ''?'') u))"

fun split_on :: "char \<Rightarrow> string \<Rightarrow> string list" where
  "split_on c [] = [[]]"
| "split_on c (x # xs) =
     (if x = c then [] # split_on c xs
      else (case split_on c xs of [] \<Rightarrow> [[x]] | y # ys \<Rightarrow> (x # y) # ys))"

definition hex_val :: "char \<Rightarrow> nat option" where
  "hex_val c = (let n = (of_char c :: nat) in
     if 48 \<le> n \<and> n \<le> 57 then Some (n - 48)
     else if 65 \<le> n \<and> n \<le> 70 then Some (n - 55)
     else if 97 \<le> n \<and> n \<le> 102 then Some (n - 87)
     else None)"

text \<open>A form field as it is decoded: \<open>+\<close> is a space, \<open>%hh\<close> is the character \<open>hh\<close>.\<close>

fun form_decode :: "string \<Rightarrow> string" where
  "form_decode [] = []"
| "form_decode [c] = (if c = CHR ''+'' then '' '' else [c])"
| "form_decode [c, a] = (if c = CHR ''+'' then CHR '' '' # form_decode [a] else c # form_decode [a])"
| "form_decode (c # a # b # cs) =
     (if c = CHR ''+'' then CHR '' '' # form_decode (a # b # cs)
      else if c = CHR ''%'' \<and> hex_val a \<noteq> None \<and> hex_val b \<noteq> None
      then char_of (16 * the (hex_val a) + the (hex_val b)) # form_decode cs
      else c # form_decode (a # b # cs))"

definition url_params :: "string \<Rightarrow> (string \<times> string) list" where
  "url_params u =
     map (\<lambda>p. (form_decode (takeWhile (\<lambda>c. c \<noteq> CHR ''='') p),
                form_decode (drop 1 (dropWhile (\<lambda>c. c \<noteq> CHR ''='') p))))
       (split_on CHR ''&'' (url_query u))"

definition url_param :: "string \<Rightarrow> string \<Rightarrow> string option" where
  "url_param u k = map_of (url_params u) k"

section \<open>Example runs\<close>

definition example_config :: config where
  "example_config =
     \<lparr>ERROR_EMAIL = ''Error Email'', SERVICE_NOW_API_PROD_USER = ''service_now_api'',
      MAX_RETRY_COUNT = CInt 3\<rparr>"

definition example_connection :: OrchestratorConnection where
  "example_connection =
     \<lparr>process_name = ''test_nyt_prod'',
      constants = (\<lambda>name. ''rpa@example.org''),
      credentials = (\<lambda>name. (''robot'', ''secret''))\<rparr>"

text \<open>A process whose name holds a character that is reserved in a URL.\<close>

definition rnd_connection :: OrchestratorConnection where
  "rnd_connection = example_connection\<lparr>process_name := ''R&D''\<rparr>"

definition ok_response :: "pyval \<Rightarrow> response" where
  "ok_response body = \<lparr>status_code = 200, resp_text = json_dumps body, resp_json = Inr body\<rparr>"

definition unavailable :: response where
  "unavailable =
     \<lparr>status_code = 503, resp_text = ''Service Unavailable'',
      resp_json = Inl (Exc ''JSONDecodeError'' ''Expecting value: line 1 column 1 (char 0)'')\<rparr>"

text \<open>The ticketing system answers every lookup with \<open>r\<close> and accepts every write.\<close>

definition lookup_gives :: "exc + response \<Rightarrow> requests" where
  "lookup_gives r =
     \<lparr>requests_get = (\<lambda>url hs a. r),
      requests_put = (\<lambda>url hs a body. Inr (ok_response (PDict [(''result'', PDict [])]))),
      requests_post = (\<lambda>url hs a body. Inr (ok_response (PDict [(''result'', PDict [])])))\<rparr>"

text \<open>The lookup finds nothing, and every write is answered with 503.\<close>

definition writes_fail :: requests where
  "writes_fail =
     \<lparr>requests_get = (\<lambda>url hs a. Inr (ok_response (PDict [(''result'', PList [])]))),
      requests_put = (\<lambda>url hs a body. Inr unavailable),
      requests_post = (\<lambda>url hs a body. Inr unavailable)\<rparr>"

definition found_abc123 :: requests where
  "found_abc123 = lookup_gives (Inr (ok_response
     (PDict [(''result'', PList [PDict [(''sys_id'', PStr ''abc123'')]])])))"

definition found_nothing :: requests where
  "found_nothing = lookup_gives (Inr (ok_response (PDict [(''result'', PList [])])))"

definition found_blank_sys_id :: requests where
  "found_blank_sys_id = lookup_gives (Inr (ok_response
     (PDict [(''result'', PList [PDict [(''sys_id'', PStr []), (''number'', PStr ''INC0012345'')]])])))"

definition lookup_unavailable :: requests where
  "lookup_unavailable = lookup_gives (Inr unavailable)"

definition network_down :: requests where
  "network_down = lookup_gives (Inl (Exc ''ConnectionError'' ''connection refused''))"

definition value_error :: error_obj where
  "value_error = Instance (Exc ''ValueError'' ''boom'')"

definition business_error :: error_obj where
  "business_error = Instance (Exc ''BusinessError'' ''the case is already closed'')"

text \<open>The lookup is answered with 200 and a page that is not JSON.\<close>

definition lookup_not_json :: requests where
  "lookup_not_json = lookup_gives (Inr
     \<lparr>status_code = 200, resp_text = ''<html>Sign in</html>'',
      resp_json = Inl (Exc ''JSONDecodeError'' ''Expecting value: line 1 column 1 (char 0)'')\<rparr>)"

text \<open>The result list holds an identifier where an object is expected.\<close>

definition lookup_odd_shape :: requests where
  "lookup_odd_shape = lookup_gives (Inr (ok_response
     (PDict [(''result'', PList [PStr ''abc123''])])))"

definition found_without_sys_id :: requests where
  "found_without_sys_id = lookup_gives (Inr (ok_response
     (PDict [(''result'', PList [PDict [(''number'', PStr ''INC0012345'')]])])))"

definition example_traceback :: string where
  "example_traceback = ''Traceback (most recent call last):\<newline>ValueError: boom\<newline>''"

definition example_error_dict :: "(string \<times> pyval) list" where
  "example_error_dict = error_dict_of ''ApplicationException'' (CInt 3) value_error example_traceback"

definition long_traceback :: string where
  "long_traceback = replicate 2000 CHR ''x''"

section \<open>How the three requests run\<close>

lemmas io_defs =
  bind_def try_except_def emit_def ret_def lift_def http_get_def http_put_def http_post_def

lemmas kind_defs = is_get_def is_put_def is_post_def is_request_def

lemma get_incident_raises:
  assumes "requests_get rq (get_url oc) json_headers (service_now_auth cfg oc) = Inl e"
  shows "get_incident cfg rq oc = ([lookup_event cfg oc], Inl e)"
  using assms by (simp add: get_incident_def io_defs lookup_event_def)

lemma get_incident_not_json:
  assumes "requests_get rq (get_url oc) json_headers (service_now_auth cfg oc) = Inr r"
    and "status_code r = 200"
    and "resp_json r = Inl e"
  shows "get_incident cfg rq oc = ([lookup_event cfg oc], Inl e)"
  using assms by (simp add: get_incident_def io_defs lookup_event_def)

lemma get_incident_non200:
  assumes "requests_get rq (get_url oc) json_headers (service_now_auth cfg oc) = Inr r"
    and "status_code r \<noteq> 200"
  shows "get_incident cfg rq oc = ([lookup_event cfg oc, Print (error_line r)], Inr PNone)"
  using assms by (simp add: get_incident_def io_defs lookup_event_def)

lemma get_incident_no_result:
  assumes "requests_get rq (get_url oc) json_headers (service_now_auth cfg oc) = Inr r"
    and "status_code r = 200"
    and "resp_json r = Inr (PDict body)"
    and "\<not> truthy (dict_get body ''result'' (PList []))"
  shows "get_incident cfg rq oc = ([lookup_event cfg oc], Inr PNone)"
  using assms by (simp add: get_incident_def io_defs lookup_event_def)

lemma get_incident_first:
  assumes "requests_get rq (get_url oc) json_headers (service_now_auth cfg oc) = Inr r"
    and "status_code r = 200"
    and "resp_json r = Inr (PDict body)"
    and "dict_get body ''result'' (PList []) = PList (PDict first # rest)"
  shows "get_incident cfg rq oc =
     ([lookup_event cfg oc, Print (py_str (dict_get first ''sys_id'' PNone))],
      Inr (dict_get first ''sys_id'' PNone))"
  using assms by (simp add: get_incident_def first_sys_id_def io_defs lookup_event_def)

lemma get_incident_requests:
  "filter is_get (fst (get_incident cfg rq oc)) = [lookup_event cfg oc]
   \<and> filter is_put (fst (get_incident cfg rq oc)) = []
   \<and> filter is_post (fst (get_incident cfg rq oc)) = []"
  by (simp add: get_incident_def first_sys_id_def io_defs lookup_event_def kind_defs
      split: sum.splits prod.splits)

lemma update_incident_requests:
  "filter is_put (fst (update_incident cfg rq oc ed sid)) = [update_event cfg oc ed sid]
   \<and> filter is_post (fst (update_incident cfg rq oc ed sid)) = []
   \<and> filter is_get (fst (update_incident cfg rq oc ed sid)) = []"
  by (simp add: update_incident_def io_defs update_event_def kind_defs
      split: sum.splits prod.splits)

lemma post_incident_requests:
  "filter is_post (fst (post_incident cfg rq oc ed)) = [create_event cfg oc ed]
   \<and> filter is_put (fst (post_incident cfg rq oc ed)) = []
   \<and> filter is_get (fst (post_incident cfg rq oc ed)) = []"
  by (simp add: post_incident_def io_defs create_event_def kind_defs
      split: sum.splits prod.splits)

lemma update_incident_non200:
  assumes "requests_put rq (put_url sid) json_headers (service_now_auth cfg oc)
             (PDict [(''comments'', PStr (comment_text oc ed))]) = Inr r"
    and "status_code r \<noteq> 200"
  shows "update_incident cfg rq oc ed sid =
     ([Print [], Print (comment_text oc ed), update_event cfg oc ed sid, Print (error_line r)],
      Inr PNone)"
  using assms by (simp add: update_incident_def io_defs update_event_def)

lemma post_incident_non200:
  assumes "requests_post rq post_url json_headers (service_now_auth cfg oc)
             (incident_data oc ed) = Inr r"
    and "status_code r \<noteq> 200"
  shows "post_incident cfg rq oc ed =
     ([Print ''inside post_incident() function ...'', create_event cfg oc ed, Print [],
       Print (''Response Status Code: '' @ show_int (status_code r)),
       Print (''Response Text: '' @ resp_text r), Print (error_line r)],
      Inr PNone)"
  using assms by (simp add: post_incident_def io_defs create_event_def)

subsection \<open>The deduplicator\<close>

lemma handle_incident_lookup_raises:
  assumes "get_incident cfg rq oc = (t, Inl e)"
  shows "handle_incident cfg rq oc ed = (t, Inl e)"
  using assms by (simp add: handle_incident_def bind_def)

lemma handle_incident_updates:
  assumes "get_incident cfg rq oc = (t, Inr sid)" and "truthy sid"
  shows "fst (handle_incident cfg rq oc ed) = t @ fst (update_incident cfg rq oc ed sid)"
  using assms by (simp add: handle_incident_def bind_def ret_def split: sum.splits prod.splits)

lemma handle_incident_creates:
  assumes "get_incident cfg rq oc = (t, Inr sid)" and "\<not> truthy sid"
  shows "fst (handle_incident cfg rq oc ed) = t @ fst (post_incident cfg rq oc ed)"
  using assms by (simp add: handle_incident_def bind_def ret_def split: sum.splits prod.splits)

lemma handle_incident_sends_lookup:
  "filter is_get (fst (handle_incident cfg rq oc ed)) = [lookup_event cfg oc]"
proof (cases "get_incident cfg rq oc")
  case (Pair t r)
  have g: "filter is_get t = [lookup_event cfg oc]"
    using get_incident_requests[of cfg rq oc] Pair by simp
  show ?thesis
  proof (cases r)
    case (Inl e)
    with Pair g show ?thesis by (simp add: handle_incident_lookup_raises)
  next
    case (Inr sid)
    with Pair g show ?thesis
      by (cases "truthy sid")
         (simp_all add: handle_incident_updates handle_incident_creates
            update_incident_requests post_incident_requests)
  qed
qed

lemma requests_of_handle_incident_nonempty:
  "requests_of (fst (handle_incident cfg rq oc ed)) \<noteq> []"
proof
  assume "requests_of (fst (handle_incident cfg rq oc ed)) = []"
  then have "\<forall>ev \<in> set (fst (handle_incident cfg rq oc ed)). \<not> is_request ev"
    by (simp add: requests_of_def filter_empty_conv)
  then have "filter is_get (fst (handle_incident cfg rq oc ed)) = []"
    by (auto simp add: filter_empty_conv is_request_def)
  then show False by (simp add: handle_incident_sends_lookup)
qed

section \<open>How the error reporter runs\<close>

text \<open>What is reported before the escalation is decided.\<close>

lemma handle_error_escalation_raises:
  assumes "handle_incident cfg rq oc (error_dict_of message error_count error tb) = (t, Inl e)"
    and "message = ''ApplicationException''" and "error_count = MAX_RETRY_COUNT cfg"
  shows "handle_error cfg rq tb message error_count error queue_element oc =
     ([LogError (error_msg_of message error_count error tb)]
        @ (case queue_element of
             Some qid \<Rightarrow> [SetQueueElementStatus qid FAILED (error_msg_of message error_count error tb)]
           | None \<Rightarrow> [])
        @ (if error \<noteq> BusinessErrorClass
           then [SendErrorScreenshot (constants oc (ERROR_EMAIL cfg)) error (process_name oc)]
           else [])
        @ [LogTrace ''ApplicationException caught. Handling ServiceNow incident.'']
        @ t
        @ [Print (''Failed to create ServiceNow incident: '' @ exc_str e),
           LogError (''Failed to create ServiceNow incident. error_msg: ''
             @ error_msg_of message error_count error tb)],
      Inr ())"
  using assms
  by (simp add: handle_error_def escalate_def Let_def bind_def try_except_def emit_def ret_def
      split: option.splits)

lemma handle_error_escalation_returns:
  assumes "handle_incident cfg rq oc (error_dict_of message error_count error tb) = (t, Inr u)"
    and "message = ''ApplicationException''" and "error_count = MAX_RETRY_COUNT cfg"
  shows "handle_error cfg rq tb message error_count error queue_element oc =
     ([LogError (error_msg_of message error_count error tb)]
        @ (case queue_element of
             Some qid \<Rightarrow> [SetQueueElementStatus qid FAILED (error_msg_of message error_count error tb)]
           | None \<Rightarrow> [])
        @ (if error \<noteq> BusinessErrorClass
           then [SendErrorScreenshot (constants oc (ERROR_EMAIL cfg)) error (process_name oc)]
           else [])
        @ [LogTrace ''ApplicationException caught. Handling ServiceNow incident.'']
        @ t
        @ [LogTrace ''ServiceNow incident handled.''],
      Inr ())"
  using assms
  by (simp add: handle_error_def escalate_def Let_def bind_def try_except_def emit_def ret_def
      split: option.splits)

lemma handle_error_no_escalation:
  assumes "\<not> (message = ''ApplicationException'' \<and> error_count = MAX_RETRY_COUNT cfg)"
  shows "handle_error cfg rq tb message error_count error queue_element oc =
     ([LogError (error_msg_of message error_count error tb)]
        @ (case queue_element of
             Some qid \<Rightarrow> [SetQueueElementStatus qid FAILED (error_msg_of message error_count error tb)]
           | None \<Rightarrow> [])
        @ (if error \<noteq> BusinessErrorClass
           then [SendErrorScreenshot (constants oc (ERROR_EMAIL cfg)) error (process_name oc)]
           else []),
      Inr ())"
  using assms
  by (auto simp add: handle_error_def Let_def bind_def emit_def ret_def split: option.splits)

lemma requests_of_handle_error:
  "requests_of (fst (handle_error cfg rq tb message error_count error queue_element oc)) =
     (if message = ''ApplicationException'' \<and> error_count = MAX_RETRY_COUNT cfg
      then requests_of (fst (handle_incident cfg rq oc (error_dict_of message error_count error tb)))
      else [])"
proof (cases "message = ''ApplicationException'' \<and> error_count = MAX_RETRY_COUNT cfg")
  case True
  obtain t r where tr: "handle_incident cfg rq oc (error_dict_of message error_count error tb) = (t, r)"
    by (cases "handle_incident cfg rq oc (error_dict_of message error_count error tb)")
  show ?thesis
  proof (cases r)
    case (Inl e)
    with tr have "handle_incident cfg rq oc (error_dict_of message error_count error tb) = (t, Inl e)"
      by simp
    from handle_error_escalation_raises[OF this, of queue_element] True tr show ?thesis
      by (simp add: requests_of_def kind_defs split: option.splits)
  next
    case (Inr u)
    with tr have "handle_incident cfg rq oc (error_dict_of message error_count error tb) = (t, Inr u)"
      by simp
    from handle_error_escalation_returns[OF this, of queue_element] True tr show ?thesis
      by (simp add: requests_of_def kind_defs split: option.splits)
  qed
next
  case False
  then show ?thesis
    by (auto simp add: handle_error_no_escalation requests_of_def kind_defs split: option.splits)
qed

section \<open>Escalation to ticketing\<close>

lemma max_retry_count_example: "MAX_RETRY_COUNT example_config = CInt 3"
  by (simp add: example_config_def)


text \<open>
  Claim C1. \<open>handle_error\<close> calls \<open>handle_incident\<close> exactly when its message is
  \<open>"ApplicationException"\<close> and its error count equals \<open>config.MAX_RETRY_COUNT\<close>.
  A call of \<open>handle_incident\<close> always sends the lookup, so it shows in the traffic
  with the ticketing system: the requests of \<open>handle_error\<close> are those of
  \<open>handle_incident\<close> on the error dictionary when both tests hold, and there are
  none for any other combination.
\<close>

theorem handle_error_escalates_iff:
  "requests_of (fst (handle_error cfg rq tb message error_count error queue_element oc)) =
     (if message = ''ApplicationException'' \<and> error_count = MAX_RETRY_COUNT cfg
      then requests_of (fst (handle_incident cfg rq oc (error_dict_of message error_count error tb)))
      else [])
   \<and> (requests_of (fst (handle_error cfg rq tb message error_count error queue_element oc)) \<noteq> []
        \<longleftrightarrow> message = ''ApplicationException'' \<and> error_count = MAX_RETRY_COUNT cfg)"
  using requests_of_handle_incident_nonempty[of cfg rq oc "error_dict_of message error_count error tb"]
  by (auto simp add: requests_of_handle_error)

text \<open>
  The positive case and the negative ones: wrong category, wrong count, both wrong, and
  the count given as the string \<open>"3"\<close> against the integer 3.
\<close>

theorem handle_error_escalates_iff_witness:
  "requests_of (fst (handle_error example_config found_nothing ''tb'' ''ApplicationException''
      (CInt 3) value_error None example_connection)) \<noteq> []
   \<and> requests_of (fst (handle_error example_config found_nothing ''tb'' ''BusinessError''
      (CInt 3) value_error None example_connection)) = []
   \<and> requests_of (fst (handle_error example_config found_nothing ''tb'' ''ApplicationException''
      (CInt 2) value_error None example_connection)) = []
   \<and> requests_of (fst (handle_error example_config found_nothing ''tb'' ''BusinessError''
      (CInt 2) value_error None example_connection)) = []
   \<and> requests_of (fst (handle_error example_config found_nothing ''tb'' ''ApplicationException''
      (CStr ''3'') value_error None example_connection)) = []"
  using
    handle_error_escalates_iff[of example_config found_nothing "''tb''" "''ApplicationException''"
      "CInt 3" value_error None example_connection]
    handle_error_escalates_iff[of example_config found_nothing "''tb''" "''BusinessError''"
      "CInt 3" value_error None example_connection]
    handle_error_escalates_iff[of example_config found_nothing "''tb''" "''ApplicationException''"
      "CInt 2" value_error None example_connection]
    handle_error_escalates_iff[of example_config found_nothing "''tb''" "''BusinessError''"
      "CInt 2" value_error None example_connection]
    handle_error_escalates_iff[of example_config found_nothing "''tb''" "''ApplicationException''"
      "CStr ''3''" value_error None example_connection]
  by (auto simp add: max_retry_count_example)

section \<open>Update or create\<close>

lemma lookup_gives_get: "requests_get (lookup_gives r) url hs a = r"
  by (simp add: lookup_gives_def)

lemma ok_response_simps:
  "status_code (ok_response body) = 200" "resp_json (ok_response body) = Inr body"
  by (simp_all add: ok_response_def)

lemma unavailable_status: "status_code unavailable \<noteq> 200"
  by (simp add: unavailable_def)

text \<open>
  Claim C2, as the code has it. When the lookup is answered with 200 and the first
  entry of the result list is an object with a true \<open>sys_id\<close>, the handler sends
  exactly one PUT, to the URL of that \<open>sys_id\<close>, and no POST; when the result list
  is empty, it sends exactly one POST and no PUT.
\<close>

theorem handle_incident_update_or_create:
  assumes "requests_get rq (get_url oc) json_headers (service_now_auth cfg oc) = Inr response"
    and "status_code response = 200"
    and "resp_json response = Inr (PDict body)"
    and "dict_get body ''result'' (PList []) = PList results"
  shows "(\<forall>first rest. results = PDict first # rest \<and> truthy (dict_get first ''sys_id'' PNone) \<longrightarrow>
            filter is_put (fst (handle_incident cfg rq oc error_dict)) =
              [update_event cfg oc error_dict (dict_get first ''sys_id'' PNone)]
            \<and> filter is_post (fst (handle_incident cfg rq oc error_dict)) = [])
       \<and> (results = [] \<longrightarrow>
            filter is_post (fst (handle_incident cfg rq oc error_dict)) = [create_event cfg oc error_dict]
            \<and> filter is_put (fst (handle_incident cfg rq oc error_dict)) = [])"
proof (intro conjI allI impI)
  fix first rest
  assume found: "results = PDict first # rest \<and> truthy (dict_get first ''sys_id'' PNone)"
  with assms have g: "get_incident cfg rq oc =
      ([lookup_event cfg oc, Print (py_str (dict_get first ''sys_id'' PNone))],
       Inr (dict_get first ''sys_id'' PNone))"
    by (simp add: get_incident_first)
  from found have t: "truthy (dict_get first ''sys_id'' PNone)" by simp
  show "filter is_put (fst (handle_incident cfg rq oc error_dict)) =
      [update_event cfg oc error_dict (dict_get first ''sys_id'' PNone)]"
    by (simp add: handle_incident_updates[OF g t] update_incident_requests kind_defs lookup_event_def)
  show "filter is_post (fst (handle_incident cfg rq oc error_dict)) = []"
    by (simp add: handle_incident_updates[OF g t] update_incident_requests kind_defs lookup_event_def)
next
  assume "results = []"
  with assms have g: "get_incident cfg rq oc = ([lookup_event cfg oc], Inr PNone)"
    by (simp add: get_incident_no_result)
  have f: "\<not> truthy PNone" by simp
  show "filter is_post (fst (handle_incident cfg rq oc error_dict)) = [create_event cfg oc error_dict]"
    by (simp add: handle_incident_creates[OF g f] post_incident_requests kind_defs lookup_event_def)
  show "filter is_put (fst (handle_incident cfg rq oc error_dict)) = []"
    by (simp add: handle_incident_creates[OF g f] post_incident_requests kind_defs lookup_event_def)
qed

text \<open>
  The two scenarios: the lookup returns \<open>{result: [{sys_id: "abc123"}]}\<close>, and the
  lookup returns \<open>{result: []}\<close>.
\<close>

theorem handle_incident_update_or_create_witness:
  "filter is_put (fst (handle_incident example_config found_abc123 example_connection example_error_dict)) =
     [HttpPut ''https://aarhuskommunedev.service-now.com/api/now/table/incident/abc123'' json_headers
        (''robot'', ''secret'') (PDict [(''comments'', PStr (comment_text example_connection example_error_dict))])]
   \<and> filter is_post (fst (handle_incident example_config found_abc123 example_connection example_error_dict)) = []
   \<and> filter is_post (fst (handle_incident example_config found_nothing example_connection example_error_dict)) =
     [create_event example_config example_connection example_error_dict]
   \<and> filter is_put (fst (handle_incident example_config found_nothing example_connection example_error_dict)) = []"
proof -
  have a: "requests_get found_abc123 (get_url example_connection) json_headers
      (service_now_auth example_config example_connection) =
      Inr (ok_response (PDict [(''result'', PList [PDict [(''sys_id'', PStr ''abc123'')]])]))"
    by (simp add: found_abc123_def lookup_gives_get)
  have b: "requests_get found_nothing (get_url example_connection) json_headers
      (service_now_auth example_config example_connection) =
      Inr (ok_response (PDict [(''result'', PList [])]))"
    by (simp add: found_nothing_def lookup_gives_get)
  have u: "update_event example_config example_connection example_error_dict (PStr ''abc123'') =
     HttpPut ''https://aarhuskommunedev.service-now.com/api/now/table/incident/abc123'' json_headers
        (''robot'', ''secret'') (PDict [(''comments'', PStr (comment_text example_connection example_error_dict))])"
    by (simp add: update_event_def put_url_def TEST_INSTANCE_def service_now_auth_def example_connection_def)
  from handle_incident_update_or_create[OF a, of "[(''result'', PList [PDict [(''sys_id'', PStr ''abc123'')]])]"
      "[PDict [(''sys_id'', PStr ''abc123'')]]" example_error_dict]
    handle_incident_update_or_create[OF b, of "[(''result'', PList [])]" "[]" example_error_dict]
  show ?thesis
    by (simp add: ok_response_simps dict_get_def u)
qed

text \<open>
  The claim as stated fails: a result list with one entry whose \<open>sys_id\<close> is the empty
  string gives no PUT and one POST.
\<close>

theorem handle_incident_blank_sys_id_creates:
  "requests_get found_blank_sys_id (get_url example_connection) json_headers
      (service_now_auth example_config example_connection) =
      Inr (ok_response (PDict [(''result'',
        PList [PDict [(''sys_id'', PStr []), (''number'', PStr ''INC0012345'')]])]))
   \<and> status_code (ok_response (PDict [(''result'',
        PList [PDict [(''sys_id'', PStr []), (''number'', PStr ''INC0012345'')]])])) = 200
   \<and> filter is_put (fst (handle_incident example_config found_blank_sys_id example_connection
        example_error_dict)) = []
   \<and> filter is_post (fst (handle_incident example_config found_blank_sys_id example_connection
        example_error_dict)) = [create_event example_config example_connection example_error_dict]"
proof -
  have a: "requests_get found_blank_sys_id (get_url example_connection) json_headers
      (service_now_auth example_config example_connection) =
      Inr (ok_response (PDict [(''result'',
        PList [PDict [(''sys_id'', PStr []), (''number'', PStr ''INC0012345'')]])]))"
    by (simp add: found_blank_sys_id_def lookup_gives_get)
  have g: "get_incident example_config found_blank_sys_id example_connection =
      ([lookup_event example_config example_connection, Print []], Inr (PStr []))"
    using get_incident_first[OF a, of "[(''result'',
        PList [PDict [(''sys_id'', PStr []), (''number'', PStr ''INC0012345'')]])]"
        "[(''sys_id'', PStr []), (''number'', PStr ''INC0012345'')]" "[]"]
    by (simp add: ok_response_simps dict_get_def)
  have f: "\<not> truthy (PStr [])" by simp
  show ?thesis
    by (simp add: a ok_response_simps handle_incident_creates[OF g f] post_incident_requests
        kind_defs lookup_event_def)
qed

text \<open>
  Claim C5. When the lookup is answered with a status other than 200, \<open>get_incident\<close>
  prints the error line and returns \<open>None\<close>, and \<open>handle_incident\<close> goes on with
  \<open>post_incident\<close>: its requests are the lookup and the create call, and no PUT is
  sent, as for a lookup that finds nothing.
\<close>

theorem handle_incident_lookup_failure_creates:
  assumes "requests_get rq (get_url oc) json_headers (service_now_auth cfg oc) = Inr response"
    and "status_code response \<noteq> 200"
  shows "get_incident cfg rq oc = ([lookup_event cfg oc, Print (error_line response)], Inr PNone)
       \<and> fst (handle_incident cfg rq oc error_dict) =
           [lookup_event cfg oc, Print (error_line response)] @ fst (post_incident cfg rq oc error_dict)
       \<and> snd (handle_incident cfg rq oc error_dict) =
           (case snd (post_incident cfg rq oc error_dict) of Inl e \<Rightarrow> Inl e | Inr created \<Rightarrow> Inr ())
       \<and> filter is_put (fst (handle_incident cfg rq oc error_dict)) = []
       \<and> filter is_post (fst (handle_incident cfg rq oc error_dict)) = [create_event cfg oc error_dict]"
proof -
  have g: "get_incident cfg rq oc = ([lookup_event cfg oc, Print (error_line response)], Inr PNone)"
    using assms by (rule get_incident_non200)
  have f: "\<not> truthy PNone" by simp
  have s: "snd (handle_incident cfg rq oc error_dict) =
      (case snd (post_incident cfg rq oc error_dict) of Inl e \<Rightarrow> Inl e | Inr created \<Rightarrow> Inr ())"
    by (cases "post_incident cfg rq oc error_dict")
       (simp add: handle_incident_def g bind_def ret_def split: sum.splits)
  show ?thesis
    by (simp add: g s handle_incident_creates[OF g f] post_incident_requests kind_defs lookup_event_def)
qed

theorem handle_incident_lookup_failure_creates_witness:
  "status_code unavailable \<noteq> 200
   \<and> get_incident example_config lookup_unavailable example_connection =
       ([lookup_event example_config example_connection, Print (error_line unavailable)], Inr PNone)
   \<and> filter is_put (fst (handle_incident example_config lookup_unavailable example_connection
        example_error_dict)) = []
   \<and> filter is_post (fst (handle_incident example_config lookup_unavailable example_connection
        example_error_dict)) = [create_event example_config example_connection example_error_dict]"
proof -
  have a: "requests_get lookup_unavailable (get_url example_connection) json_headers
      (service_now_auth example_config example_connection) = Inr unavailable"
    by (simp add: lookup_unavailable_def lookup_gives_get)
  from handle_incident_lookup_failure_creates[OF a unavailable_status, of example_error_dict]
    unavailable_status
  show ?thesis by blast
qed

text \<open>
  Claim C8. When the PUT of \<open>update_incident\<close> or the POST of \<open>post_incident\<close> is
  answered with a status other than 200, the function prints the line
  \<open>Error <status>: <text>\<close>, returns \<open>None\<close> and does not raise; the request is the
  only one of the run, so nothing is sent again.
\<close>

theorem write_failure_is_printed_not_raised:
  "(requests_put rq (put_url sys_id) json_headers (service_now_auth cfg oc)
        (PDict [(''comments'', PStr (comment_text oc error_dict))]) = Inr response
      \<and> status_code response \<noteq> 200 \<longrightarrow>
      update_incident cfg rq oc error_dict sys_id =
        ([Print [], Print (comment_text oc error_dict), update_event cfg oc error_dict sys_id,
          Print (''Error '' @ show_int (status_code response) @ '': '' @ resp_text response)],
         Inr PNone))
   \<and> (requests_post rq post_url json_headers (service_now_auth cfg oc)
        (incident_data oc error_dict) = Inr response'
      \<and> status_code response' \<noteq> 200 \<longrightarrow>
      post_incident cfg rq oc error_dict =
        ([Print ''inside post_incident() function ...'', create_event cfg oc error_dict, Print [],
          Print (''Response Status Code: '' @ show_int (status_code response')),
          Print (''Response Text: '' @ resp_text response'),
          Print (''Error '' @ show_int (status_code response') @ '': '' @ resp_text response')],
         Inr PNone))"
  by (simp add: update_incident_non200 post_incident_non200 error_line_def)

lemma show_int_503: "show_int 503 = ''503''"
  by code_simp

theorem write_failure_is_printed_not_raised_witness:
  "update_incident example_config writes_fail example_connection example_error_dict (PStr ''abc123'') =
     ([Print [], Print (comment_text example_connection example_error_dict),
       update_event example_config example_connection example_error_dict (PStr ''abc123''),
       Print ''Error 503: Service Unavailable''],
      Inr PNone)
   \<and> post_incident example_config writes_fail example_connection example_error_dict =
     ([Print ''inside post_incident() function ...'',
       create_event example_config example_connection example_error_dict, Print [],
       Print ''Response Status Code: 503'', Print ''Response Text: Service Unavailable'',
       Print ''Error 503: Service Unavailable''],
      Inr PNone)"
  using write_failure_is_printed_not_raised[of writes_fail "PStr ''abc123''" example_config
      example_connection example_error_dict unavailable unavailable]
  by (simp add: writes_fail_def unavailable_def show_int_503)

text \<open>
  Claim C9. When the lookup is answered with 200 and the first entry of a non-empty
  result list has no \<open>sys_id\<close> key, or a \<open>sys_id\<close> that is false in Python (the empty
  string, \<open>null\<close>, 0), \<open>get_incident\<close> returns that value (\<open>None\<close> for a missing key)
  and \<open>handle_incident\<close> sends the create call and no update call.
\<close>

theorem handle_incident_falsy_sys_id_creates:
  assumes "requests_get rq (get_url oc) json_headers (service_now_auth cfg oc) = Inr response"
    and "status_code response = 200"
    and "resp_json response = Inr (PDict body)"
    and "dict_get body ''result'' (PList []) = PList (PDict first # rest)"
    and "\<not> truthy (dict_get first ''sys_id'' PNone)"
  shows "snd (get_incident cfg rq oc) = Inr (dict_get first ''sys_id'' PNone)
       \<and> filter is_post (fst (handle_incident cfg rq oc error_dict)) = [create_event cfg oc error_dict]
       \<and> filter is_put (fst (handle_incident cfg rq oc error_dict)) = []"
proof -
  have g: "get_incident cfg rq oc =
      ([lookup_event cfg oc, Print (py_str (dict_get first ''sys_id'' PNone))],
       Inr (dict_get first ''sys_id'' PNone))"
    using assms(1-4) by (rule get_incident_first)
  show ?thesis
    by (simp add: g handle_incident_creates[OF g assms(5)] post_incident_requests kind_defs
        lookup_event_def)
qed

text \<open>The first entry has an incident number and no \<open>sys_id\<close>.\<close>

theorem handle_incident_falsy_sys_id_creates_witness:
  "map_of [(''number'', PStr ''INC0012345'')] ''sys_id'' = None
   \<and> snd (get_incident example_config found_without_sys_id example_connection) = Inr PNone
   \<and> filter is_post (fst (handle_incident example_config found_without_sys_id example_connection
        example_error_dict)) = [create_event example_config example_connection example_error_dict]
   \<and> filter is_put (fst (handle_incident example_config found_without_sys_id example_connection
        example_error_dict)) = []"
proof -
  have a: "requests_get found_without_sys_id (get_url example_connection) json_headers
      (service_now_auth example_config example_connection) =
      Inr (ok_response (PDict [(''result'', PList [PDict [(''number'', PStr ''INC0012345'')]])]))"
    by (simp add: found_without_sys_id_def lookup_gives_get)
  from handle_incident_falsy_sys_id_creates[OF a, of
      "[(''result'', PList [PDict [(''number'', PStr ''INC0012345'')]])]"
      "[(''number'', PStr ''INC0012345'')]" "[]" example_error_dict]
  show ?thesis
    by (simp add: ok_response_simps dict_get_def)
qed

section \<open>What the error reporter always does\<close>

lemma handle_error_returns:
  "snd (handle_error cfg rq tb message error_count error queue_element oc) = Inr ()"
proof (cases "message = ''ApplicationException'' \<and> error_count = MAX_RETRY_COUNT cfg")
  case True
  obtain t r where tr: "handle_incident cfg rq oc (error_dict_of message error_count error tb) = (t, r)"
    by (cases "handle_incident cfg rq oc (error_dict_of message error_count error tb)")
  show ?thesis
  proof (cases r)
    case (Inl e)
    with tr have "handle_incident cfg rq oc (error_dict_of message error_count error tb) = (t, Inl e)"
      by simp
    from handle_error_escalation_raises[OF this, of queue_element] True show ?thesis by simp
  next
    case (Inr u)
    with tr have "handle_incident cfg rq oc (error_dict_of message error_count error tb) = (t, Inr u)"
      by simp
    from handle_error_escalation_returns[OF this, of queue_element] True show ?thesis by simp
  qed
next
  case False
  then show ?thesis by (simp add: handle_error_no_escalation)
qed

lemma handle_error_report:
  "\<exists>rest. fst (handle_error cfg rq tb message error_count error queue_element oc) =
     [LogError (error_msg_of message error_count error tb)]
       @ (case queue_element of
            Some qid \<Rightarrow> [SetQueueElementStatus qid FAILED (error_msg_of message error_count error tb)]
          | None \<Rightarrow> [])
       @ (if error \<noteq> BusinessErrorClass
          then [SendErrorScreenshot (constants oc (ERROR_EMAIL cfg)) error (process_name oc)]
          else [])
       @ rest"
proof (cases "message = ''ApplicationException'' \<and> error_count = MAX_RETRY_COUNT cfg")
  case True
  obtain t r where tr: "handle_incident cfg rq oc (error_dict_of message error_count error tb) = (t, r)"
    by (cases "handle_incident cfg rq oc (error_dict_of message error_count error tb)")
  show ?thesis
  proof (cases r)
    case (Inl e)
    with tr have "handle_incident cfg rq oc (error_dict_of message error_count error tb) = (t, Inl e)"
      by simp
    from handle_error_escalation_raises[OF this, of queue_element] True show ?thesis by simp
  next
    case (Inr u)
    with tr have "handle_incident cfg rq oc (error_dict_of message error_count error tb) = (t, Inr u)"
      by simp
    from handle_error_escalation_returns[OF this, of queue_element] True show ?thesis by simp
  qed
next
  case False
  then show ?thesis by (simp add: handle_error_no_escalation)
qed

subsection \<open>The length of the serialized report\<close>

lemma json_escape_char_nonempty: "1 \<le> length (json_escape_char c)"
  by (simp add: json_escape_char_def hex2_def)

lemma length_concat_escape: "length s \<le> length (concat (map json_escape_char s))"
proof (induction s)
  case Nil
  then show ?case by simp
next
  case (Cons c s)
  with json_escape_char_nonempty[of c] show ?case by simp
qed

lemma length_json_string: "length s + 2 \<le> length (json_string s)"
  using length_concat_escape[of s] by (simp add: json_string_def)

lemma serialized_longer_than_trace:
  "length tb < length (json_dumps (PDict (error_dict_of message error_count error tb)))"
  using length_json_string[of tb] by (simp add: error_dict_of_def)

lemma shorten_long:
  assumes "1000 < length s"
  shows "shorten s = take 500 s @ ''  [...] '' @ drop (length s - 490) s"
    and "length (take 500 s) = 500"
    and "length (drop (length s - 490) s) = 490"
    and "length (shorten s) = 998"
  using assms by (simp_all add: shorten_def)

lemma shorten_short: "length s \<le> 1000 \<Longrightarrow> shorten s = s"
  by (simp add: shorten_def)

lemma example_serialized:
  \<open>json_dumps (PDict example_error_dict) =
     ''{"type": "ApplicationException", "error_count": 3, "message": "boom", ''
     @ ''"trace": "Traceback (most recent call last):'' @ [CHR 0x5C, CHR ''n'']
     @ ''ValueError: boom'' @ [CHR 0x5C, CHR ''n''] @ ''"}''\<close>
  by code_simp

text \<open>
  Claim C4. Let \<open>s\<close> be \<open>json.dumps(error_dict, ensure_ascii=False)\<close>. When \<open>s\<close> has
  more than 1000 characters, the message that \<open>handle_error\<close> logs, and stores with
  the queue element when there is one, is the first 500 characters of \<open>s\<close>, the marker
  and the last 490 characters of \<open>s\<close>, so it is no longer than 1000 plus the marker;
  when \<open>s\<close> has at most 1000 characters the message is \<open>s\<close>.
\<close>

theorem error_msg_is_shortened:
  "(let s = json_dumps (PDict (error_dict_of message error_count error tb));
        m = error_msg_of message error_count error tb
    in (1000 < length s \<longrightarrow>
          m = take 500 s @ ''  [...] '' @ drop (length s - 490) s
          \<and> length (take 500 s) = 500
          \<and> length (drop (length s - 490) s) = 490
          \<and> length m \<le> 1000 + length ''  [...] '')
       \<and> (length s \<le> 1000 \<longrightarrow> m = s)
       \<and> (\<exists>rest. fst (handle_error cfg rq tb message error_count error queue_element oc) =
             LogError m
               # (case queue_element of
                    Some qid \<Rightarrow> [SetQueueElementStatus qid FAILED m]
                  | None \<Rightarrow> [])
               @ rest))"
proof -
  define s where "s = json_dumps (PDict (error_dict_of message error_count error tb))"
  have m: "error_msg_of message error_count error tb = shorten s"
    by (simp only: error_msg_of_def s_def)
  obtain rest where "fst (handle_error cfg rq tb message error_count error queue_element oc) =
     [LogError (shorten s)]
       @ (case queue_element of
            Some qid \<Rightarrow> [SetQueueElementStatus qid FAILED (shorten s)]
          | None \<Rightarrow> [])
       @ (if error \<noteq> BusinessErrorClass
          then [SendErrorScreenshot (constants oc (ERROR_EMAIL cfg)) error (process_name oc)]
          else [])
       @ rest"
    using handle_error_report[of cfg rq tb message error_count error queue_element oc]
    unfolding m by blast
  then have r: "\<exists>rest'. fst (handle_error cfg rq tb message error_count error queue_element oc) =
     LogError (shorten s)
       # (case queue_element of
            Some qid \<Rightarrow> [SetQueueElementStatus qid FAILED (shorten s)]
          | None \<Rightarrow> [])
       @ rest'"
    by simp
  have "(1000 < length s \<longrightarrow>
          shorten s = take 500 s @ ''  [...] '' @ drop (length s - 490) s
          \<and> length (take 500 s) = 500
          \<and> length (drop (length s - 490) s) = 490
          \<and> length (shorten s) \<le> 1000 + length ''  [...] '')
       \<and> (length s \<le> 1000 \<longrightarrow> shorten s = s)
       \<and> (\<exists>rest. fst (handle_error cfg rq tb message error_count error queue_element oc) =
             LogError (shorten s)
               # (case queue_element of
                    Some qid \<Rightarrow> [SetQueueElementStatus qid FAILED (shorten s)]
                  | None \<Rightarrow> [])
               @ rest)"
    using r shorten_long[of s] shorten_short[of s] by simp
  then show ?thesis
    unfolding Let_def m s_def by blast
qed

text \<open>A traceback of 2000 characters, and the short example.\<close>

theorem error_msg_is_shortened_witness:
  "1000 < length (json_dumps (PDict (error_dict_of ''ApplicationException'' (CInt 3) value_error
      long_traceback)))
   \<and> length (error_msg_of ''ApplicationException'' (CInt 3) value_error long_traceback) = 998
   \<and> length (json_dumps (PDict (error_dict_of ''ApplicationException'' (CInt 3) value_error
      example_traceback))) \<le> 1000
   \<and> error_msg_of ''ApplicationException'' (CInt 3) value_error example_traceback =
       json_dumps (PDict (error_dict_of ''ApplicationException'' (CInt 3) value_error
         example_traceback))"
proof -
  have long: "1000 < length (json_dumps (PDict (error_dict_of ''ApplicationException'' (CInt 3)
      value_error long_traceback)))"
    using serialized_longer_than_trace[of long_traceback "''ApplicationException''" "CInt 3" value_error]
    by (simp add: long_traceback_def)
  have short: "length (json_dumps (PDict (error_dict_of ''ApplicationException'' (CInt 3)
      value_error example_traceback))) \<le> 1000"
    using example_serialized by (simp add: example_error_dict_def)
  from long short
    error_msg_is_shortened[of "''ApplicationException''" "CInt 3" value_error long_traceback
      example_config found_nothing None example_connection]
    error_msg_is_shortened[of "''ApplicationException''" "CInt 3" value_error example_traceback
      example_config found_nothing None example_connection]
  show ?thesis
    by (simp add: Let_def)
qed

text \<open>
  Claim C3. An instance of \<open>BusinessError\<close> should send no screenshot e-mail. The test
  \<open>error != BusinessError\<close> compares the instance with the class, so it holds for
  every instance: the e-mail is sent for a business error too.
\<close>

theorem business_error_sends_screenshot:
  "is_business_error business_error
   \<and> SendErrorScreenshot ''rpa@example.org'' business_error ''test_nyt_prod''
       \<in> set (fst (handle_error example_config found_nothing example_traceback ''BusinessError''
            CNone business_error (Some ''queue-element-1'') example_connection))"
  by (simp add: handle_error_no_escalation business_error_def example_connection_def)

text \<open>The e-mail is sent for every exception instance, whatever its class.\<close>

lemma screenshot_for_every_instance:
  "SendErrorScreenshot (constants oc (ERROR_EMAIL cfg)) (Instance e) (process_name oc)
     \<in> set (fst (handle_error cfg rq tb message error_count (Instance e) queue_element oc))"
  using handle_error_report[of cfg rq tb message error_count "Instance e" queue_element oc]
  by auto

text \<open>
  Claim C7. An exception raised on the escalation path, by \<open>handle_incident\<close> and its
  requests, is caught in \<open>handle_error\<close>: the failure message is printed, an error
  is logged with the connection, and \<open>handle_error\<close> returns. Whatever the
  ticketing side does, \<open>handle_error\<close> does not raise.
\<close>

theorem handle_error_absorbs_escalation_failure:
  "snd (handle_error cfg rq tb message error_count error queue_element oc) = Inr ()
   \<and> (\<forall>t e. message = ''ApplicationException'' \<and> error_count = MAX_RETRY_COUNT cfg
          \<and> handle_incident cfg rq oc (error_dict_of message error_count error tb) = (t, Inl e) \<longrightarrow>
        (\<exists>pre. fst (handle_error cfg rq tb message error_count error queue_element oc) =
           pre @ t
             @ [Print (''Failed to create ServiceNow incident: '' @ exc_str e),
                LogError (''Failed to create ServiceNow incident. error_msg: ''
                  @ error_msg_of message error_count error tb)]))"
proof (intro conjI allI impI)
  show "snd (handle_error cfg rq tb message error_count error queue_element oc) = Inr ()"
    by (rule handle_error_returns)
next
  fix t e
  assume a: "message = ''ApplicationException'' \<and> error_count = MAX_RETRY_COUNT cfg
          \<and> handle_incident cfg rq oc (error_dict_of message error_count error tb) = (t, Inl e)"
  from a have h: "handle_incident cfg rq oc (error_dict_of message error_count error tb) = (t, Inl e)"
    by blast
  from a have m: "message = ''ApplicationException''"
    by blast
  from a have c: "error_count = MAX_RETRY_COUNT cfg"
    by blast
  have "fst (handle_error cfg rq tb message error_count error queue_element oc) =
     ([LogError (error_msg_of message error_count error tb)]
        @ (case queue_element of
             Some qid \<Rightarrow> [SetQueueElementStatus qid FAILED (error_msg_of message error_count error tb)]
           | None \<Rightarrow> [])
        @ (if error \<noteq> BusinessErrorClass
           then [SendErrorScreenshot (constants oc (ERROR_EMAIL cfg)) error (process_name oc)]
           else [])
        @ [LogTrace ''ApplicationException caught. Handling ServiceNow incident.''])
        @ t
        @ [Print (''Failed to create ServiceNow incident: '' @ exc_str e),
           LogError (''Failed to create ServiceNow incident. error_msg: ''
             @ error_msg_of message error_count error tb)]"
    by (simp add: handle_error_escalation_raises[OF h m c])
  then show "\<exists>pre. fst (handle_error cfg rq tb message error_count error queue_element oc) =
           pre @ t
             @ [Print (''Failed to create ServiceNow incident: '' @ exc_str e),
                LogError (''Failed to create ServiceNow incident. error_msg: ''
                  @ error_msg_of message error_count error tb)]"
    by blast
qed

text \<open>
  Three failures: the network is down and the lookup raises \<open>ConnectionError\<close>; the
  answer is not JSON; the result list holds a string, which has no \<open>get\<close>.
\<close>

theorem handle_error_absorbs_escalation_failure_witness:
  "handle_incident example_config network_down example_connection example_error_dict =
     ([lookup_event example_config example_connection],
      Inl (Exc ''ConnectionError'' ''connection refused''))
   \<and> snd (handle_error example_config network_down example_traceback ''ApplicationException''
        (CInt 3) value_error None example_connection) = Inr ()
   \<and> (\<exists>pre. fst (handle_error example_config network_down example_traceback
        ''ApplicationException'' (CInt 3) value_error None example_connection) =
        pre @ [lookup_event example_config example_connection,
               Print ''Failed to create ServiceNow incident: connection refused'',
               LogError (''Failed to create ServiceNow incident. error_msg: ''
                 @ error_msg_of ''ApplicationException'' (CInt 3) value_error example_traceback)])
   \<and> snd (handle_incident example_config lookup_not_json example_connection example_error_dict) =
       Inl (Exc ''JSONDecodeError'' ''Expecting value: line 1 column 1 (char 0)'')
   \<and> snd (handle_error example_config lookup_not_json example_traceback ''ApplicationException''
        (CInt 3) value_error None example_connection) = Inr ()
   \<and> snd (handle_incident example_config lookup_odd_shape example_connection example_error_dict) =
       Inl (Exc ''AttributeError''
         ([CHR 0x27] @ ''str'' @ [CHR 0x27] @ '' object has no attribute '' @ [CHR 0x27] @ ''get''
          @ [CHR 0x27]))
   \<and> snd (handle_error example_config lookup_odd_shape example_traceback ''ApplicationException''
        (CInt 3) value_error None example_connection) = Inr ()"
proof -
  have g: "get_incident example_config network_down example_connection =
     ([lookup_event example_config example_connection],
      Inl (Exc ''ConnectionError'' ''connection refused''))"
    by (rule get_incident_raises) (simp add: network_down_def lookup_gives_get)
  have h: "handle_incident example_config network_down example_connection example_error_dict =
     ([lookup_event example_config example_connection],
      Inl (Exc ''ConnectionError'' ''connection refused''))"
    using g by (rule handle_incident_lookup_raises)
  have g2: "get_incident example_config lookup_not_json example_connection =
     ([lookup_event example_config example_connection],
      Inl (Exc ''JSONDecodeError'' ''Expecting value: line 1 column 1 (char 0)''))"
    by (rule get_incident_not_json[where r = "\<lparr>status_code = 200, resp_text = ''<html>Sign in</html>'',
        resp_json = Inl (Exc ''JSONDecodeError'' ''Expecting value: line 1 column 1 (char 0)'')\<rparr>"])
       (simp_all add: lookup_not_json_def lookup_gives_get)
  have h2: "snd (handle_incident example_config lookup_not_json example_connection
      example_error_dict) = Inl (Exc ''JSONDecodeError'' ''Expecting value: line 1 column 1 (char 0)'')"
    by (simp add: handle_incident_lookup_raises[OF g2])
  have g3: "get_incident example_config lookup_odd_shape example_connection =
     ([lookup_event example_config example_connection],
      Inl (Exc ''AttributeError''
         ([CHR 0x27] @ ''str'' @ [CHR 0x27] @ '' object has no attribute '' @ [CHR 0x27] @ ''get''
          @ [CHR 0x27])))"
    by (simp add: get_incident_def first_sys_id_def io_defs lookup_event_def lookup_odd_shape_def
        lookup_gives_get ok_response_simps dict_get_def)
  have h3: "snd (handle_incident example_config lookup_odd_shape example_connection
      example_error_dict) = Inl (Exc ''AttributeError''
         ([CHR 0x27] @ ''str'' @ [CHR 0x27] @ '' object has no attribute '' @ [CHR 0x27] @ ''get''
          @ [CHR 0x27]))"
    by (simp add: handle_incident_lookup_raises[OF g3])
  from h handle_error_absorbs_escalation_failure[of example_config network_down example_traceback
      "''ApplicationException''" "CInt 3" value_error None example_connection]
    handle_error_absorbs_escalation_failure[of example_config lookup_not_json example_traceback
      "''ApplicationException''" "CInt 3" value_error None example_connection]
    handle_error_absorbs_escalation_failure[of example_config lookup_odd_shape example_traceback
      "''ApplicationException''" "CInt 3" value_error None example_connection]
  show ?thesis
    by (simp add: example_error_dict_def max_retry_count_example h2[unfolded example_error_dict_def]
        h3[unfolded example_error_dict_def])
qed

section \<open>Where the requests go\<close>

lemma urls_of_simps:
  "urls_of [] = []"
  "urls_of (ev # t) = (case request_url ev of None \<Rightarrow> urls_of t | Some u \<Rightarrow> u # urls_of t)"
  "urls_of (t @ t') = urls_of t @ urls_of t'"
  by (auto simp add: urls_of_def List.map_filter_def split: option.splits)

lemma urls_of_get_incident: "urls_of (fst (get_incident cfg rq oc)) = [get_url oc]"
  by (simp add: get_incident_def first_sys_id_def io_defs urls_of_simps
      split: sum.splits prod.splits)

lemma urls_of_update_incident:
  "urls_of (fst (update_incident cfg rq oc ed sid)) = [put_url sid]"
  by (simp add: update_incident_def io_defs urls_of_simps split: sum.splits prod.splits)

lemma urls_of_post_incident: "urls_of (fst (post_incident cfg rq oc ed)) = [post_url]"
  by (simp add: post_incident_def io_defs urls_of_simps split: sum.splits prod.splits)

lemma urls_of_handle_incident:
  "\<exists>rest. urls_of (fst (handle_incident cfg rq oc ed)) = get_url oc # rest
     \<and> (rest = [] \<or> rest = [post_url] \<or> (\<exists>sid. rest = [put_url sid]))"
proof (cases "get_incident cfg rq oc")
  case (Pair t r)
  have g: "urls_of t = [get_url oc]"
    using urls_of_get_incident[of cfg rq oc] Pair by simp
  show ?thesis
  proof (cases r)
    case (Inl e)
    with Pair g show ?thesis by (simp add: handle_incident_lookup_raises)
  next
    case (Inr sid)
    show ?thesis
    proof (cases "truthy sid")
      case True
      with Pair Inr g show ?thesis
        by (auto simp add: handle_incident_updates urls_of_simps urls_of_update_incident)
    next
      case False
      with Pair Inr g show ?thesis
        by (simp add: handle_incident_creates urls_of_simps urls_of_post_incident)
    qed
  qed
qed

lemma urls_of_handle_error:
  "urls_of (fst (handle_error cfg rq tb message error_count error queue_element oc)) =
     (if message = ''ApplicationException'' \<and> error_count = MAX_RETRY_COUNT cfg
      then urls_of (fst (handle_incident cfg rq oc (error_dict_of message error_count error tb)))
      else [])"
proof (cases "message = ''ApplicationException'' \<and> error_count = MAX_RETRY_COUNT cfg")
  case True
  obtain t r where tr: "handle_incident cfg rq oc (error_dict_of message error_count error tb) = (t, r)"
    by (cases "handle_incident cfg rq oc (error_dict_of message error_count error tb)")
  show ?thesis
  proof (cases r)
    case (Inl e)
    with tr have "handle_incident cfg rq oc (error_dict_of message error_count error tb) = (t, Inl e)"
      by simp
    from handle_error_escalation_raises[OF this, of queue_element] True tr show ?thesis
      by (simp add: urls_of_simps split: option.splits)
  next
    case (Inr u)
    with tr have "handle_incident cfg rq oc (error_dict_of message error_count error tb) = (t, Inr u)"
      by simp
    from handle_error_escalation_returns[OF this, of queue_element] True tr show ?thesis
      by (simp add: urls_of_simps split: option.splits)
  qed
next
  case False
  then show ?thesis
    by (auto simp add: handle_error_no_escalation urls_of_simps split: option.splits)
qed

lemma url_authority_get_url:
  "url_authority (get_url oc) = Some ''aarhuskommunedev.service-now.com''"
  by (simp add: url_authority_def get_url_def TEST_INSTANCE_def)

lemma url_authority_put_url:
  "url_authority (put_url sid) = Some ''aarhuskommunedev.service-now.com''"
  by (simp add: url_authority_def put_url_def TEST_INSTANCE_def)

lemma url_authority_post_url:
  "url_authority post_url = Some ''aarhuskommunedev.service-now.com''"
  by (simp add: url_authority_def post_url_def TEST_INSTANCE_def)

text \<open>
  Claim C10. Every request of \<open>get_incident\<close>, \<open>update_incident\<close> and
  \<open>post_incident\<close>, and so every request of \<open>handle_error\<close>, goes to the host of
  \<open>TEST_INSTANCE\<close>, \<open>aarhuskommunedev.service-now.com\<close>, and none to the host of
  \<open>PROD_INSTANCE\<close>.
\<close>

theorem requests_go_to_test_instance:
  "\<forall>u \<in> set (urls_of (fst (get_incident cfg rq oc)))
        \<union> set (urls_of (fst (update_incident cfg rq oc error_dict sys_id)))
        \<union> set (urls_of (fst (post_incident cfg rq oc error_dict)))
        \<union> set (urls_of (fst (handle_error cfg rq tb message error_count error queue_element oc))).
     url_authority u = Some (TEST_INSTANCE @ ''.service-now.com'')
     \<and> url_authority u \<noteq> Some (PROD_INSTANCE @ ''.service-now.com'')"
proof
  fix u
  assume u: "u \<in> set (urls_of (fst (get_incident cfg rq oc)))
        \<union> set (urls_of (fst (update_incident cfg rq oc error_dict sys_id)))
        \<union> set (urls_of (fst (post_incident cfg rq oc error_dict)))
        \<union> set (urls_of (fst (handle_error cfg rq tb message error_count error queue_element oc)))"
  have "u = get_url oc \<or> u = post_url \<or> (\<exists>sid. u = put_url sid)"
  proof (cases "u \<in> set (urls_of (fst (handle_error cfg rq tb message error_count error queue_element oc)))")
    case True
    then have "u \<in> set (urls_of (fst (handle_incident cfg rq oc (error_dict_of message error_count error tb))))"
      by (auto simp add: urls_of_handle_error split: if_splits)
    with urls_of_handle_incident[of cfg rq oc "error_dict_of message error_count error tb"]
    show ?thesis by auto
  next
    case False
    with u show ?thesis
      by (auto simp add: urls_of_get_incident urls_of_update_incident urls_of_post_incident)
  qed
  then have "url_authority u = Some ''aarhuskommunedev.service-now.com''"
    by (auto simp add: url_authority_get_url url_authority_put_url url_authority_post_url)
  then show "url_authority u = Some (TEST_INSTANCE @ ''.service-now.com'')
     \<and> url_authority u \<noteq> Some (PROD_INSTANCE @ ''.service-now.com'')"
    by (simp add: TEST_INSTANCE_def PROD_INSTANCE_def)
qed

text \<open>The lookup and the update of the run that finds the incident \<open>abc123\<close>.\<close>

theorem requests_go_to_test_instance_witness:
  "urls_of (fst (handle_error example_config found_abc123 example_traceback ''ApplicationException''
      (CInt 3) value_error None example_connection)) =
     [get_url example_connection, put_url (PStr ''abc123'')]
   \<and> url_authority (get_url example_connection) = Some ''aarhuskommunedev.service-now.com''
   \<and> url_authority (put_url (PStr ''abc123'')) = Some ''aarhuskommunedev.service-now.com''
   \<and> url_authority (get_url example_connection) \<noteq> Some ''aarhuskommune.service-now.com''
   \<and> url_authority (put_url (PStr ''abc123'')) \<noteq> Some ''aarhuskommune.service-now.com''"
proof -
  have a: "requests_get found_abc123 (get_url example_connection) json_headers
      (service_now_auth example_config example_connection) =
      Inr (ok_response (PDict [(''result'', PList [PDict [(''sys_id'', PStr ''abc123'')]])]))"
    by (simp add: found_abc123_def lookup_gives_get)
  have g: "get_incident example_config found_abc123 example_connection =
      ([lookup_event example_config example_connection, Print ''abc123''], Inr (PStr ''abc123''))"
    using get_incident_first[OF a, of "[(''result'', PList [PDict [(''sys_id'', PStr ''abc123'')]])]"
        "[(''sys_id'', PStr ''abc123'')]" "[]"]
    by (simp add: ok_response_simps dict_get_def)
  have t: "truthy (PStr ''abc123'')" by simp
  have us: "urls_of (fst (handle_error example_config found_abc123 example_traceback
      ''ApplicationException'' (CInt 3) value_error None example_connection)) =
     [get_url example_connection, put_url (PStr ''abc123'')]"
    by (simp add: urls_of_handle_error max_retry_count_example handle_incident_updates[OF g t]
        urls_of_simps urls_of_update_incident lookup_event_def)
  from requests_go_to_test_instance[of example_config found_abc123 example_connection
      example_error_dict "PStr ''abc123''" example_traceback "''ApplicationException''" "CInt 3"
      value_error None]
  show ?thesis
    by (simp add: us TEST_INSTANCE_def PROD_INSTANCE_def)
qed

section \<open>The lookup request\<close>

lemma split_on_without: "c \<notin> set xs \<Longrightarrow> split_on c xs = [xs]"
  by (induction xs) auto

lemma form_decode_without:
  "CHR ''%'' \<notin> set s \<Longrightarrow> CHR ''+'' \<notin> set s \<Longrightarrow> form_decode s = s"
  by (induction s rule: form_decode.induct) auto

lemma takeWhile_whole: "\<forall>x \<in> set xs. P x \<Longrightarrow> takeWhile P xs = xs"
  by (simp add: takeWhile_eq_all_conv)

lemma url_query_get_url:
  assumes "CHR ''#'' \<notin> set (process_name oc)"
  shows "url_query (get_url oc) = ''sysparm_limit=50&sysparm_query='' @ query oc"
  using assms
  by (auto simp add: url_query_def get_url_def TEST_INSTANCE_def query_def takeWhile_whole)

lemma url_params_get_url:
  assumes "CHR ''#'' \<notin> set (process_name oc)" and "CHR ''&'' \<notin> set (process_name oc)"
    and "CHR ''%'' \<notin> set (process_name oc)" and "CHR ''+'' \<notin> set (process_name oc)"
  shows "url_params (get_url oc) = [(''sysparm_limit'', ''50''), (''sysparm_query'', query oc)]"
proof -
  have s: "split_on CHR ''&'' (''sysparm_query='' @ query oc) = [''sysparm_query='' @ query oc]"
    using assms(2) by (intro split_on_without) (simp add: query_def)
  have d: "form_decode (query oc) = query oc"
    using assms(3,4) by (intro form_decode_without) (simp_all add: query_def)
  show ?thesis
    using s by (simp add: url_params_def url_query_get_url[OF assms(1)] d)
qed

text \<open>
  For a process name with none of \<open>&\<close>, \<open>#\<close>, \<open>%\<close>, \<open>+\<close>, the two parameters that
  arrive are the limit and the query text as \<open>get_incident\<close> wrote it.
\<close>

lemma lookup_query_read_back:
  assumes "CHR ''&'' \<notin> set (process_name oc)" and "CHR ''#'' \<notin> set (process_name oc)"
    and "CHR ''%'' \<notin> set (process_name oc)" and "CHR ''+'' \<notin> set (process_name oc)"
  shows "url_param (get_url oc) ''sysparm_limit'' = Some ''50''"
    and "url_param (get_url oc) ''sysparm_query'' = Some (query oc)"
  using url_params_get_url[OF assms(2) assms(1) assms(3) assms(4)]
  by (simp_all add: url_param_def)

text \<open>
  Claim C6. Every lookup should carry \<open>sysparm_limit=50\<close> and a \<open>sysparm_query\<close> that
  selects the incidents whose short description contains the process name, that are
  active, whose state is not 6, newest first. \<open>get_incident\<close> puts the process name
  into the URL without escaping it, so a character of the name that is reserved in a
  URL changes the query. For the process \<open>R&D\<close> the one GET of \<open>get_incident\<close>
  goes to a URL whose \<open>sysparm_query\<close> is \<open>short_descriptionLIKER\<close>: the rest of the
  name, the two filters and the ordering arrive as another parameter.
\<close>

theorem lookup_query_cut_at_ampersand:
  "process_name rnd_connection = ''R&D''
   \<and> filter is_get (fst (get_incident example_config found_nothing rnd_connection)) =
       [HttpGet (''https://aarhuskommunedev.service-now.com/api/now/table/incident''
                 @ ''?sysparm_limit=50&sysparm_query=''
                 @ ''short_descriptionLIKER&D^active=true^state!=6^ORDERBYDESCsys_created_on'')
          [(''Content-Type'', ''application/json''), (''Accept'', ''application/json'')]
          (''robot'', ''secret'')]
   \<and> url_params (get_url rnd_connection) =
       [(''sysparm_limit'', ''50''),
        (''sysparm_query'', ''short_descriptionLIKER''),
        (''D^active'', ''true^state!=6^ORDERBYDESCsys_created_on'')]
   \<and> url_param (get_url rnd_connection) ''sysparm_query'' = Some ''short_descriptionLIKER''
   \<and> url_param (get_url rnd_connection) ''sysparm_query'' \<noteq> Some (query rnd_connection)"
proof -
  have u: "get_url rnd_connection =
       ''https://aarhuskommunedev.service-now.com/api/now/table/incident''
       @ ''?sysparm_limit=50&sysparm_query=''
       @ ''short_descriptionLIKER&D^active=true^state!=6^ORDERBYDESCsys_created_on''"
    by (simp add: rnd_connection_def example_connection_def get_url_def query_def TEST_INSTANCE_def)
  have g: "filter is_get (fst (get_incident example_config found_nothing rnd_connection)) =
       [HttpGet (get_url rnd_connection) json_headers (''robot'', ''secret'')]"
    using get_incident_requests[of example_config found_nothing rnd_connection]
    by (simp add: lookup_event_def service_now_auth_def rnd_connection_def example_connection_def)
  have p: "url_params (get_url rnd_connection) =
       [(''sysparm_limit'', ''50''),
        (''sysparm_query'', ''short_descriptionLIKER''),
        (''D^active'', ''true^state!=6^ORDERBYDESCsys_created_on'')]"
    by (simp add: u url_params_def url_query_def)
  have q: "query rnd_connection =
       ''short_descriptionLIKER&D^active=true^state!=6^ORDERBYDESCsys_created_on''"
    by (simp add: rnd_connection_def example_connection_def query_def)
  have n: "process_name rnd_connection = ''R&D''"
    by (simp add: rnd_connection_def example_connection_def)
  have g': "filter is_get (fst (get_incident example_config found_nothing rnd_connection)) =
       [HttpGet (''https://aarhuskommunedev.service-now.com/api/now/table/incident''
                 @ ''?sysparm_limit=50&sysparm_query=''
                 @ ''short_descriptionLIKER&D^active=true^state!=6^ORDERBYDESCsys_created_on'')
          [(''Content-Type'', ''application/json''), (''Accept'', ''application/json'')]
          (''robot'', ''secret'')]"
    by (simp add: g u json_headers_def)
  show ?thesis
    by (simp add: n g' p q url_param_def)
qed

end
